theory Spec2Isabelle
  imports Main
begin

section \<open>JavaScript strings\<close>

text \<open>
  A JavaScript string is a sequence of UTF-16 code units. It is modelled as a \<open>string\<close>
  whose characters are the code units below 256 (the Latin-1 range, which covers the
  Portuguese texts of the application): \<open>CHR 0xE1\<close> is the letter a with acute accent.
  \<open>undefined\<close> is \<open>None\<close> wherever a value may be missing.
\<close>

text \<open>String conversion of a value inside a template literal.\<close>

definition template_string :: "string option \<Rightarrow> string" where
  "template_string v = (case v of None \<Rightarrow> ''undefined'' | Some s \<Rightarrow> s)"

text \<open>
  \<open>String.prototype.trim\<close> strips white space and line terminators from both ends. In
  the modelled range these are TAB, LF, VT, FF, CR, SPACE and NBSP.
\<close>

definition is_whitespace :: "char \<Rightarrow> bool" where
  "is_whitespace c =
     (c = CHR 0x09 \<or> c = CHR 0x0A \<or> c = CHR 0x0B \<or> c = CHR 0x0C \<or> c = CHR 0x0D
      \<or> c = CHR 0x20 \<or> c = CHR 0xA0)"

definition trim :: "string \<Rightarrow> string" where
  "trim s = rev (dropWhile is_whitespace (rev (dropWhile is_whitespace s)))"

definition starts_with_whitespace :: "string \<Rightarrow> bool" where
  "starts_with_whitespace s = (case s of [] \<Rightarrow> False | c # _ \<Rightarrow> is_whitespace c)"

definition ends_with_whitespace :: "string \<Rightarrow> bool" where
  "ends_with_whitespace s = starts_with_whitespace (rev s)"

text \<open>
  \<open>String.prototype.toLowerCase\<close>: in the modelled range the letters A to Z and the
  accented capitals 0xC0 to 0xDE (without the multiplication sign 0xD7) move up by 32.
\<close>

definition toLowerCase_char :: "char \<Rightarrow> char" where
  "toLowerCase_char c =
     (let n = (of_char c :: nat)
      in if (65 \<le> n \<and> n \<le> 90) \<or> (192 \<le> n \<and> n \<le> 222 \<and> n \<noteq> 215)
         then char_of (n + 32) else c)"

definition toLowerCase :: "string \<Rightarrow> string" where
  "toLowerCase s = map toLowerCase_char s"

text \<open>
  \<open>String.prototype.split\<close> with a one-character separator: the result is never empty,
  and \<open>''''.split('.')\<close> is the list holding the empty string.
\<close>

fun split :: "char \<Rightarrow> string \<Rightarrow> string list" where
  "split sep [] = [[]]"
| "split sep (c # cs) =
     (if c = sep then [] # split sep cs
      else (case split sep cs of [] \<Rightarrow> [[c]] | x # xs \<Rightarrow> (c # x) # xs))"

text \<open>\<open>Array.prototype.pop\<close> returns the last element, or \<open>undefined\<close> on an empty array.\<close>

definition pop :: "'a list \<Rightarrow> 'a option" where
  "pop xs = (if xs = [] then None else Some (last xs))"

text \<open>Decimal rendering of a non-negative integer, as a template literal prints it.\<close>

fun digits :: "nat \<Rightarrow> nat \<Rightarrow> string" where
  "digits 0 n = []"
| "digits (Suc fuel) n =
     (if n < 10 then [char_of (48 + n)]
      else digits fuel (n div 10) @ [char_of (48 + n mod 10)])"

definition number_string :: "nat \<Rightarrow> string" where
  "number_string n = digits (Suc n) n"

section \<open>Input sanitisation (utils/api.ts)\<close>

text \<open>
  \<open>sanitizeInput\<close> chains three global regular-expression replacements and a trim:
  \<^verbatim>\<open>input.replace(/[<>]/g, '').replace(/javascript:/gi, '').replace(/on\w+=/gi, '').trim()\<close>.
  A global replacement scans from the left; at each position it tries a match, removes it
  and continues after it, and otherwise keeps the character and moves one position on.
\<close>

definition remove_angle_brackets :: "string \<Rightarrow> string" where
  "remove_angle_brackets s = filter (\<lambda>c. c \<noteq> CHR ''<'' \<and> c \<noteq> CHR ''>'') s"

text \<open>
  Case-insensitive comparison with a lower-case ASCII pattern character: without the
  unicode flag only the ASCII capital letter canonicalises to the same character.
\<close>

definition ascii_lower :: "char \<Rightarrow> char" where
  "ascii_lower c =
     (let n = (of_char c :: nat) in if 65 \<le> n \<and> n \<le> 90 then char_of (n + 32) else c)"

fun matches_ignore_case :: "string \<Rightarrow> string \<Rightarrow> bool" where
  "matches_ignore_case [] s = True"
| "matches_ignore_case (p # ps) [] = False"
| "matches_ignore_case (p # ps) (c # cs) = (ascii_lower c = p \<and> matches_ignore_case ps cs)"

fun remove_javascript :: "string \<Rightarrow> string" where
  "remove_javascript [] = []"
| "remove_javascript (c # cs) =
     (if matches_ignore_case ''javascript:'' (c # cs) then remove_javascript (drop 10 cs)
      else c # remove_javascript cs)"

text \<open>The class \<open>\w\<close>: ASCII letters, digits and the underscore.\<close>

definition is_word_char :: "char \<Rightarrow> bool" where
  "is_word_char c =
     (let n = (of_char c :: nat)
      in (48 \<le> n \<and> n \<le> 57) \<or> (65 \<le> n \<and> n \<le> 90) \<or> n = 95 \<or> (97 \<le> n \<and> n \<le> 122))"

text \<open>
  Length of the match of \<open>/on\w+=/i\<close> at the start of the string, if there is one. The
  greedy \<open>\w+\<close> takes the longest run of word characters; backtracking to a shorter run
  cannot help, since the character after a shorter run is a word character and not \<open>=\<close>.
\<close>

definition on_handler_match :: "string \<Rightarrow> nat option" where
  "on_handler_match s =
     (case s of
        a # b # t \<Rightarrow>
          if ascii_lower a = CHR ''o'' \<and> ascii_lower b = CHR ''n'' then
            (let ws = takeWhile is_word_char t; r = dropWhile is_word_char t
             in if ws \<noteq> [] \<and> r \<noteq> [] \<and> hd r = CHR ''='' then Some (3 + length ws) else None)
          else None
      | _ \<Rightarrow> None)"

fun remove_on_handlers :: "string \<Rightarrow> string" where
  "remove_on_handlers [] = []"
| "remove_on_handlers (c # cs) =
     (case on_handler_match (c # cs) of
        Some n \<Rightarrow> remove_on_handlers (drop (n - 1) cs)
      | None \<Rightarrow> c # remove_on_handlers cs)"

definition sanitizeInput :: "string \<Rightarrow> string" where
  "sanitizeInput input =
     trim (remove_on_handlers (remove_javascript (remove_angle_brackets input)))"

section \<open>Data model (types/index.ts)\<close>

text \<open>
  The interfaces of \<open>types/index.ts\<close> as records. The type checker is gone at run time,
  and the branding record is also read from unvalidated JSON (\<open>localStorage\<close>,
  \<open>/config/branding.json\<close>), so every branding property is optional in the model:
  \<open>None\<close> is a property that reads as \<open>undefined\<close>. Field names that several
  interfaces share, or that HOL reserves, carry the interface's name.
\<close>

record ColorScheme =
  primary :: "string option"
  secondary :: "string option"
  accent :: "string option"
  background :: "string option"
  surface :: "string option"
  text_color :: "string option"
  textSecondary :: "string option"

record Colors =
  light :: "ColorScheme option"
  dark :: "ColorScheme option"

record Fonts =
  primary_font :: "string option"
  secondary_font :: "string option"

record Contact =
  email :: "string option"
  phone :: "string option"
  website :: "string option"

record BrandingConfig =
  appName :: "string option"
  tagline :: "string option"
  logo :: "string option"
  favicon :: "string option"
  colors :: "Colors option"
  fonts :: "Fonts option"
  contact :: "Contact option"

text \<open>
  An object passed as \<open>Partial<BrandingConfig>\<close>: each top-level key is either not an own
  property of the object, or an own property holding a value, which may be
  \<open>undefined\<close> (the type allows \<open>{appName: undefined}\<close>).
\<close>

datatype 'a property = Absent | Present "'a option"

record PartialBranding =
  new_appName :: "string property"
  new_tagline :: "string property"
  new_logo :: "string property"
  new_favicon :: "string property"
  new_colors :: "Colors property"
  new_fonts :: "Fonts property"
  new_contact :: "Contact property"

datatype court_type = Estadual | Federal | Superior

record Court =
  court_id :: string
  court_name :: string
  court_url :: string
  court_type :: court_type

record ApiSettings =
  baseUrl :: string
  timeout :: nat

record Features =
  documentAnalysis :: bool
  caseSearch :: bool
  contractAnalysis :: bool
  jurisprudenceSearch :: bool
  mindMap :: bool

record FileUpload =
  maxSize :: nat
  allowedTypes :: "string list"
  maxFiles :: nat

record RateLimiting =
  enabled :: bool
  requests :: nat
  window :: nat

record Security =
  enableCSRF :: bool
  enableCORS :: bool
  maxRequestSize :: nat
  rateLimiting :: RateLimiting

record AppConfig =
  api :: ApiSettings
  features :: Features
  courts :: "Court list"
  fileUpload :: FileUpload
  security :: Security

text \<open>A \<open>Date\<close> is its time value, the milliseconds since the epoch.\<close>

type_synonym date = nat

datatype message_type = User | Assistant

record Metadata =
  documentId :: "string option"
  analysisType :: "string option"
  meta_caseNumber :: "string option"

record ChatMessage =
  msg_id :: string
  msg_type :: message_type
  content :: string
  timestamp :: date
  metadata :: "Metadata option"

datatype document_status = Uploading | Processing | Ready | Error

record DocumentAnalysis =
  summary :: string
  keyPoints :: "string list"
  parties :: "string list"
  dates :: "string list"
  obligations :: "string list"
  risks :: "string list"

record Document =
  doc_id :: string
  doc_name :: string
  doc_type :: string
  doc_size :: nat
  uploadedAt :: date
  doc_status :: document_status
  analysis :: "DocumentAnalysis option"

datatype event_type = Decision | Hearing | Filing | DeadlineEvent

record CaseEvent =
  event_id :: string
  event_date :: date
  event_description :: string
  event_type :: event_type

datatype priority = High | Medium | Low

record Deadline =
  deadline_id :: string
  deadline_date :: date
  deadline_description :: string
  deadline_priority :: priority
  completed :: bool

record CaseInfo =
  case_number :: string
  case_court :: string
  case_status :: string
  case_parties :: "string list"
  subject :: string
  lastUpdate :: date
  timeline :: "CaseEvent list"
  deadlines :: "Deadline list"

text \<open>The browser's \<open>File\<close>: the three properties the code reads.\<close>

record File =
  file_name :: string
  file_type :: string
  file_size :: nat

text \<open>
  A thrown value: whether it is an instance of \<open>Error\<close>, its \<open>name\<close> and its
  \<open>message\<close>.
\<close>

record js_error =
  instanceof_Error :: bool
  error_name :: string
  message :: string

definition new_Error :: "string \<Rightarrow> js_error" where
  "new_Error m = \<lparr>instanceof_Error = True, error_name = ''Error'', message = m\<rparr>"

definition TypeError :: "string \<Rightarrow> js_error" where
  "TypeError m = \<lparr>instanceof_Error = True, error_name = ''TypeError'', message = m\<rparr>"

definition SyntaxError :: "string \<Rightarrow> js_error" where
  "SyntaxError m = \<lparr>instanceof_Error = True, error_name = ''SyntaxError'', message = m\<rparr>"

text \<open>
  The rejection of a fetch whose signal was aborted by \<open>controller.abort()\<close> without a
  reason: a \<open>DOMException\<close> named \<open>AbortError\<close>, whose prototype chain holds
  \<open>Error.prototype\<close>.
\<close>

definition AbortError :: js_error where
  "AbortError = \<lparr>instanceof_Error = True, error_name = ''AbortError'',
     message = ''signal is aborted without reason''\<rparr>"

text \<open>
  What \<open>localStorage.setItem\<close> throws when the storage has no room for the value: a
  \<open>DOMException\<close> named \<open>QuotaExceededError\<close>.
\<close>

definition QuotaExceededError :: js_error where
  "QuotaExceededError = \<lparr>instanceof_Error = True, error_name = ''QuotaExceededError'',
     message = ''The quota has been exceeded.''\<rparr>"

text \<open>A settled promise, and the response of a fetch with the outcome of \<open>response.json()\<close>.\<close>

datatype 'a settled = Fulfilled 'a | Rejected js_error

record 'a response =
  ok :: bool
  status :: nat
  json :: "'a settled"

section \<open>The branding store (hooks/useBranding.ts)\<close>

definition defaultBranding :: BrandingConfig where
  "defaultBranding =
     \<lparr>appName = Some ''JurisAI'',
      tagline = Some (''Assistente Jur'' @ [CHR 0xED] @ ''dico Inteligente''),
      logo = Some ''/logo.svg'',
      favicon = Some ''/favicon.ico'',
      colors = Some
        \<lparr>light = Some
           \<lparr>primary = Some ''#1e40af'', secondary = Some ''#64748b'', accent = Some ''#f59e0b'',
            background = Some ''#ffffff'', surface = Some ''#f8fafc'',
            text_color = Some ''#1e293b'', textSecondary = Some ''#64748b''\<rparr>,
         dark = Some
           \<lparr>primary = Some ''#3b82f6'', secondary = Some ''#94a3b8'', accent = Some ''#fbbf24'',
            background = Some ''#0f172a'', surface = Some ''#1e293b'',
            text_color = Some ''#f1f5f9'', textSecondary = Some ''#94a3b8''\<rparr>\<rparr>,
      fonts = Some \<lparr>primary_font = Some ''Inter'', secondary_font = Some ''system-ui''\<rparr>,
      contact = Some
        \<lparr>email = Some ''contato@jurisai.com.br'', phone = Some ''+55 11 99999-9999'',
         website = Some ''https://jurisai.com.br''\<rparr>\<rparr>"

text \<open>
  What \<open>localStorage\<close> holds under a key: \<open>JSON_text b\<close> stands for the string
  \<open>JSON.stringify(b)\<close>, in which the properties that read as \<open>undefined\<close> are left
  out; any other string is \<open>Raw_text\<close>.
\<close>

datatype storage_value = JSON_text BrandingConfig | Raw_text string

text \<open>
  The part of the page that \<open>applyBrandingToDOM\<close> touches: whether the root element has
  the class \<open>dark\<close>, the custom properties of its inline style, the document title, and
  the \<open>href\<close> of the \<open>link[rel="icon"]\<close> element when there is one.
\<close>

record dom =
  darkClass :: bool
  style :: "string \<rightharpoonup> string"
  title :: string
  faviconHref :: "string option"

text \<open>
  The state one instance of the hook works on. \<open>branding\<close> is the record its closures
  see: the model applies every call to the state the previous call left (the component has
  rendered again in between). \<open>has_room v\<close> tells whether the storage area has room for
  the value \<open>v\<close> under the key \<open>branding\<close>, beside what its other keys hold: the hook
  writes that key alone, so its calls do not change the answer.
\<close>

record BrandingStore =
  branding :: BrandingConfig
  localStorage :: "string \<rightharpoonup> storage_value"
  has_room :: "storage_value \<Rightarrow> bool"
  document :: dom

text \<open>
  \<open>localStorage.setItem('branding', value)\<close>: the value is stored, or the call throws
  and the storage is as before.
\<close>

definition setItem_branding :: "storage_value \<Rightarrow> BrandingStore \<Rightarrow> js_error + BrandingStore" where
  "setItem_branding v s =
     (if has_room s v then Inr (s\<lparr>localStorage := (localStorage s)(''branding'' \<mapsto> v)\<rparr>)
      else Inl QuotaExceededError)"

text \<open>One key of the object spread \<open>{...branding, ...newBranding}\<close>.\<close>

definition spread :: "'a option \<Rightarrow> 'a property \<Rightarrow> 'a option" where
  "spread current new = (case new of Absent \<Rightarrow> current | Present v \<Rightarrow> v)"

definition spread_branding :: "BrandingConfig \<Rightarrow> PartialBranding \<Rightarrow> BrandingConfig" where
  "spread_branding b n =
     \<lparr>appName = spread (appName b) (new_appName n),
      tagline = spread (tagline b) (new_tagline n),
      logo = spread (logo b) (new_logo n),
      favicon = spread (favicon b) (new_favicon n),
      colors = spread (colors b) (new_colors n),
      fonts = spread (fonts b) (new_fonts n),
      contact = spread (contact b) (new_contact n)\<rparr>"

text \<open>
  \<open>style.setProperty(name, value)\<close>: the value is converted to a string, and the empty
  string removes the property.
\<close>

definition setProperty :: "string \<Rightarrow> string option \<Rightarrow> (string \<rightharpoonup> string) \<Rightarrow> (string \<rightharpoonup> string)" where
  "setProperty k v m =
     (if template_string v = [] then m(k := None) else m(k \<mapsto> template_string v))"

text \<open>
  \<open>applyBrandingToDOM\<close> reads \<open>brandingConfig.colors.dark\<close> or \<open>.light\<close> and then
  \<open>colors.primary\<close>: a missing \<open>colors\<close> object or a missing scheme for the active
  theme throws a \<open>TypeError\<close> before anything is written.
\<close>

definition applyBrandingToDOM :: "BrandingConfig \<Rightarrow> dom \<Rightarrow> js_error + dom" where
  "applyBrandingToDOM brandingConfig d =
     (case colors brandingConfig of
        None \<Rightarrow> Inl (TypeError ''Cannot read properties of undefined'')
      | Some cs \<Rightarrow>
          (case (if darkClass d then dark cs else light cs) of
             None \<Rightarrow> Inl (TypeError ''Cannot read properties of undefined'')
           | Some c \<Rightarrow>
               Inr (d\<lparr>style :=
                       (setProperty ''--color-text-secondary'' (textSecondary c)
                       (setProperty ''--color-text'' (text_color c)
                       (setProperty ''--color-surface'' (surface c)
                       (setProperty ''--color-background'' (background c)
                       (setProperty ''--color-accent'' (accent c)
                       (setProperty ''--color-secondary'' (secondary c)
                       (setProperty ''--color-primary'' (primary c) (style d)))))))),
                     title := template_string (appName brandingConfig) @ '' - ''
                              @ template_string (tagline brandingConfig),
                     faviconHref :=
                       (case faviconHref d of None \<Rightarrow> None
                        | Some _ \<Rightarrow> Some (template_string (favicon brandingConfig)))\<rparr>)))"

text \<open>
  \<open>updateBranding\<close> and \<open>resetBranding\<close> return the new state and the exception that
  escaped, if any. \<open>updateBranding\<close> sets the state, then writes the storage, then
  touches the page, with no \<open>try\<close> around any of it: when \<open>setItem\<close> throws, the state
  has its new value, the storage keeps its old one and the page is not touched; when
  \<open>applyBrandingToDOM\<close> throws, the state and the storage have their new values.
\<close>

definition updateBranding :: "PartialBranding \<Rightarrow> BrandingStore \<Rightarrow> BrandingStore \<times> js_error option" where
  "updateBranding newBranding s =
     (let updatedBranding = spread_branding (branding s) newBranding;
          s1 = s\<lparr>branding := updatedBranding\<rparr>
      in case setItem_branding (JSON_text updatedBranding) s1 of
           Inl e \<Rightarrow> (s1, Some e)
         | Inr s2 \<Rightarrow>
             (case applyBrandingToDOM updatedBranding (document s2) of
                Inl e \<Rightarrow> (s2, Some e)
              | Inr d \<Rightarrow> (s2\<lparr>document := d\<rparr>, None)))"

definition resetBranding :: "BrandingStore \<Rightarrow> BrandingStore \<times> js_error option" where
  "resetBranding s =
     (let s' = s\<lparr>branding := defaultBranding,
                 localStorage := (localStorage s)(''branding'' := None)\<rparr>
      in case applyBrandingToDOM defaultBranding (document s') of
           Inl e \<Rightarrow> (s', Some e)
         | Inr d \<Rightarrow> (s'\<lparr>document := d\<rparr>, None))"

text \<open>A sequence of \<open>updateBranding\<close> calls, each on the state the one before left.\<close>

fun updateBranding_sequence :: "PartialBranding list \<Rightarrow> BrandingStore \<Rightarrow> BrandingStore" where
  "updateBranding_sequence [] s = s"
| "updateBranding_sequence (n # ns) s = updateBranding_sequence ns (fst (updateBranding n s))"

text \<open>
  Whether every write of a sequence of \<open>updateBranding\<close> calls finds room in the storage.
\<close>

fun writes_accepted :: "PartialBranding list \<Rightarrow> BrandingStore \<Rightarrow> bool" where
  "writes_accepted [] s = True"
| "writes_accepted (n # ns) s =
     (has_room s (JSON_text (spread_branding (branding s) n))
      \<and> writes_accepted ns (fst (updateBranding n s)))"

text \<open>
  The state after \<open>useState(defaultBranding)\<close>, on a storage with its room and a page.
\<close>

definition initial_store :: "(string \<rightharpoonup> storage_value) \<Rightarrow> (storage_value \<Rightarrow> bool) \<Rightarrow> dom \<Rightarrow> BrandingStore" where
  "initial_store st room d =
     \<lparr>branding = defaultBranding, localStorage = st, has_room = room, document = d\<rparr>"

text \<open>The record in which no property reads as \<open>undefined\<close>, at any level.\<close>

definition scheme_populated :: "ColorScheme option \<Rightarrow> bool" where
  "scheme_populated c =
     (case c of None \<Rightarrow> False
      | Some c \<Rightarrow> primary c \<noteq> None \<and> secondary c \<noteq> None \<and> accent c \<noteq> None
          \<and> background c \<noteq> None \<and> surface c \<noteq> None \<and> text_color c \<noteq> None
          \<and> textSecondary c \<noteq> None)"

definition colors_populated :: "Colors option \<Rightarrow> bool" where
  "colors_populated cs =
     (case cs of None \<Rightarrow> False
      | Some cs \<Rightarrow> scheme_populated (light cs) \<and> scheme_populated (dark cs))"

definition fonts_populated :: "Fonts option \<Rightarrow> bool" where
  "fonts_populated f =
     (case f of None \<Rightarrow> False | Some f \<Rightarrow> primary_font f \<noteq> None \<and> secondary_font f \<noteq> None)"

definition contact_populated :: "Contact option \<Rightarrow> bool" where
  "contact_populated c =
     (case c of None \<Rightarrow> False
      | Some c \<Rightarrow> email c \<noteq> None \<and> phone c \<noteq> None \<and> website c \<noteq> None)"

definition populated :: "BrandingConfig \<Rightarrow> bool" where
  "populated b =
     (appName b \<noteq> None \<and> tagline b \<noteq> None \<and> logo b \<noteq> None \<and> favicon b \<noteq> None
      \<and> colors_populated (colors b) \<and> fonts_populated (fonts b)
      \<and> contact_populated (contact b))"

text \<open>
  An update whose own properties all hold complete values: what a caller passes when the
  values are of the declared types and none is \<open>undefined\<close>.
\<close>

definition supplied :: "('a option \<Rightarrow> bool) \<Rightarrow> 'a property \<Rightarrow> bool" where
  "supplied complete p = (case p of Absent \<Rightarrow> True | Present v \<Rightarrow> complete v)"

definition complete_update :: "PartialBranding \<Rightarrow> bool" where
  "complete_update n =
     (supplied (\<lambda>v. v \<noteq> None) (new_appName n) \<and> supplied (\<lambda>v. v \<noteq> None) (new_tagline n)
      \<and> supplied (\<lambda>v. v \<noteq> None) (new_logo n) \<and> supplied (\<lambda>v. v \<noteq> None) (new_favicon n)
      \<and> supplied colors_populated (new_colors n) \<and> supplied fonts_populated (new_fonts n)
      \<and> supplied contact_populated (new_contact n))"

text \<open>
  The merge as the specification words it, for comparison with \<open>spread_branding\<close>:
  shallow per top-level key, but the colors merge at the level of the colour scheme, so an
  override changes only the schemes and keys it supplies.
\<close>

definition merge_key :: "'a option \<Rightarrow> 'a option \<Rightarrow> 'a option" where
  "merge_key current new = (case new of None \<Rightarrow> current | Some v \<Rightarrow> Some v)"

definition merge_scheme :: "ColorScheme option \<Rightarrow> ColorScheme option \<Rightarrow> ColorScheme option" where
  "merge_scheme current new =
     (case (current, new) of
        (_, None) \<Rightarrow> current
      | (None, Some n) \<Rightarrow> Some n
      | (Some c, Some n) \<Rightarrow>
          Some \<lparr>primary = merge_key (primary c) (primary n),
                secondary = merge_key (secondary c) (secondary n),
                accent = merge_key (accent c) (accent n),
                background = merge_key (background c) (background n),
                surface = merge_key (surface c) (surface n),
                text_color = merge_key (text_color c) (text_color n),
                textSecondary = merge_key (textSecondary c) (textSecondary n)\<rparr>)"

definition merge_colors :: "Colors option \<Rightarrow> Colors property \<Rightarrow> Colors option" where
  "merge_colors current new =
     (case new of
        Absent \<Rightarrow> current
      | Present None \<Rightarrow> current
      | Present (Some n) \<Rightarrow>
          (case current of
             None \<Rightarrow> Some n
           | Some c \<Rightarrow> Some \<lparr>light = merge_scheme (light c) (light n),
                             dark = merge_scheme (dark c) (dark n)\<rparr>))"

definition specified_merge :: "BrandingConfig \<Rightarrow> PartialBranding \<Rightarrow> BrandingConfig" where
  "specified_merge b n = (spread_branding b n)\<lparr>colors := merge_colors (colors b) (new_colors n)\<rparr>"

section \<open>The API client (utils/api.ts)\<close>

record ApiClient =
  client_baseUrl :: string
  client_timeout :: nat

definition new_ApiClient :: "AppConfig \<Rightarrow> ApiClient" where
  "new_ApiClient config =
     \<lparr>client_baseUrl = baseUrl (api config), client_timeout = timeout (api config)\<rparr>"

text \<open>The \<open>RequestInit\<close> of a call, and what \<open>request\<close> hands to \<open>fetch\<close>.\<close>

record RequestInit =
  http_method :: "string option"
  body :: "string option"
  headers :: "(string \<times> string) list"

record fetch_call =
  url :: string
  init :: RequestInit
  abort_after :: nat

text \<open>
  What happens first after \<open>fetch\<close> was called and the timer was set: the fetch settles
  (it is fulfilled with a response or rejected with a transport error), or the timer fires
  and its callback aborts the signal, on which the fetch is rejected with the
  \<open>AbortError\<close>. Which of the two it is belongs to the network: \<open>request\<close> takes it as
  a function of the call.
\<close>

datatype 'a race = FetchSettles "'a response settled" | TimerFires

definition fetch :: "(fetch_call \<Rightarrow> 'a race) \<Rightarrow> fetch_call \<Rightarrow> 'a response settled" where
  "fetch network c = (case network c of FetchSettles r \<Rightarrow> r | TimerFires \<Rightarrow> Rejected AbortError)"

text \<open>The \<open>catch\<close> block of \<open>request\<close>: the value it throws.\<close>

definition request_catch :: "js_error \<Rightarrow> js_error" where
  "request_catch error =
     (if instanceof_Error error \<and> error_name error = ''AbortError''
      then new_Error ''Request timeout'' else error)"

text \<open>
  The call \<open>request\<close> makes: the URL is the base URL followed by the endpoint, the
  content type is set unless the caller's headers override it, and the timer is set to
  the configured timeout.
\<close>

definition request_call :: "ApiClient \<Rightarrow> string \<Rightarrow> RequestInit \<Rightarrow> fetch_call" where
  "request_call client endpoint options =
     \<lparr>url = client_baseUrl client @ endpoint,
      init = options\<lparr>headers :=
               (''Content-Type'',
                (case map_of (headers options) ''Content-Type'' of
                   None \<Rightarrow> ''application/json'' | Some v \<Rightarrow> v))
               # filter (\<lambda>h. fst h \<noteq> ''Content-Type'') (headers options)\<rparr>,
      abort_after = client_timeout client\<rparr>"

definition request :: "ApiClient \<Rightarrow> (fetch_call \<Rightarrow> 'a race) \<Rightarrow> string \<Rightarrow> RequestInit \<Rightarrow> js_error + 'a" where
  "request client network endpoint options =
     (case fetch network (request_call client endpoint options) of
        Rejected e \<Rightarrow> Inl (request_catch e)
      | Fulfilled response \<Rightarrow>
          if \<not> ok response
          then Inl (request_catch
                     (new_Error (''HTTP error! status: '' @ number_string (status response))))
          else (case json response of
                  Rejected e \<Rightarrow> Inl (request_catch e)
                | Fulfilled v \<Rightarrow> Inr v))"

definition searchCase :: "ApiClient \<Rightarrow> (fetch_call \<Rightarrow> 'a race) \<Rightarrow> string \<Rightarrow> js_error + 'a" where
  "searchCase client network payload =
     request client network ''/api/cases/search''
       \<lparr>http_method = Some ''POST'', body = Some payload, headers = []\<rparr>"

section \<open>File validation and the drop handler (utils/api.ts, components/DocumentUpload.tsx)\<close>

text \<open>\<^verbatim>\<open>'.' + file.name.split('.').pop()?.toLowerCase()\<close>\<close>

definition fileExtension :: "File \<Rightarrow> string" where
  "fileExtension file =
     CHR ''.'' # template_string (map_option toLowerCase (pop (split (CHR ''.'') (file_name file))))"

definition validateFileType :: "File \<Rightarrow> string list \<Rightarrow> bool" where
  "validateFileType file allowed = (fileExtension file \<in> set allowed)"

definition validateFileSize :: "File \<Rightarrow> nat \<Rightarrow> bool" where
  "validateFileSize file maxSize' = (file_size file \<le> maxSize')"

text \<open>
  The two alerts of \<open>onDrop\<close>, by their template and its arguments:
  \<^verbatim>\<open>Tipo de arquivo nao suportado: ${file.name}\<close> and
  \<^verbatim>\<open>Arquivo muito grande: ${file.name}. Tamanho maximo: ${maxSize / 1024 / 1024}MB\<close>
  (the second argument is \<open>maxSize\<close>, which the message prints in megabytes).
\<close>

datatype alert = UnsupportedType string | TooLarge string nat

text \<open>
  A dropped file comes with the two values the handler draws from the environment while
  it builds the document: the identifier (\<open>Date.now()\<close> and \<open>Math.random()\<close>) and the
  upload time (\<open>new Date()\<close>).
\<close>

record dropped =
  dropped_file :: File
  fresh_id :: string
  now :: date

text \<open>
  What one run of \<open>onDrop\<close> does: the alerts it shows, the documents it collects in
  \<open>newDocuments\<close>, and the calls of \<open>simulateUpload\<close> it starts, each in order.
\<close>

record drop_effects =
  alerts :: "alert list"
  newDocuments :: "Document list"
  uploads :: "(string \<times> File) list"

definition new_document :: "dropped \<Rightarrow> Document" where
  "new_document d =
     \<lparr>doc_id = fresh_id d, doc_name = file_name (dropped_file d), doc_type = file_type (dropped_file d),
      doc_size = file_size (dropped_file d), uploadedAt = now d, doc_status = Uploading,
      analysis = None\<rparr>"

text \<open>The body of the \<open>forEach\<close>, for one file.\<close>

definition onDrop_file :: "AppConfig \<Rightarrow> dropped \<Rightarrow> drop_effects \<Rightarrow> drop_effects" where
  "onDrop_file appConfig d e =
     (if \<not> validateFileType (dropped_file d) (allowedTypes (fileUpload appConfig))
      then e\<lparr>alerts := alerts e @ [UnsupportedType (file_name (dropped_file d))]\<rparr>
      else if \<not> validateFileSize (dropped_file d) (maxSize (fileUpload appConfig))
      then e\<lparr>alerts := alerts e @ [TooLarge (file_name (dropped_file d)) (maxSize (fileUpload appConfig))]\<rparr>
      else e\<lparr>newDocuments := newDocuments e @ [new_document d],
             uploads := uploads e @ [(doc_id (new_document d), dropped_file d)]\<rparr>)"

text \<open>A file reaches the document list when it passes both checks.\<close>

definition accepted :: "AppConfig \<Rightarrow> dropped \<Rightarrow> bool" where
  "accepted appConfig d =
     (validateFileType (dropped_file d) (allowedTypes (fileUpload appConfig))
      \<and> validateFileSize (dropped_file d) (maxSize (fileUpload appConfig)))"

fun onDrop_forEach :: "AppConfig \<Rightarrow> dropped list \<Rightarrow> drop_effects \<Rightarrow> drop_effects" where
  "onDrop_forEach appConfig [] e = e"
| "onDrop_forEach appConfig (d # ds) e = onDrop_forEach appConfig ds (onDrop_file appConfig d e)"

definition onDrop_effects :: "AppConfig \<Rightarrow> dropped list \<Rightarrow> drop_effects" where
  "onDrop_effects appConfig acceptedFiles =
     onDrop_forEach appConfig acceptedFiles \<lparr>alerts = [], newDocuments = [], uploads = []\<rparr>"

text \<open>
  The document list after \<open>onDrop\<close>: \<open>onDocumentsChange\<close> is called with the old list
  followed by the new documents, and only when there is a new document.
\<close>

definition onDrop :: "AppConfig \<Rightarrow> Document list \<Rightarrow> dropped list \<Rightarrow> Document list" where
  "onDrop appConfig documents acceptedFiles =
     (let e = onDrop_effects appConfig acceptedFiles
      in if length (newDocuments e) > 0 then documents @ newDocuments e else documents)"

text \<open>A document built from a file carries the file's name, type and size.\<close>

definition document_of :: "File \<Rightarrow> Document \<Rightarrow> bool" where
  "document_of f doc =
     (doc_name doc = file_name f \<and> doc_type doc = file_type f \<and> doc_size doc = file_size f)"

text \<open>
  The extension as the specification words it, for comparison with \<open>fileExtension\<close>: the
  lower-cased text after the final dot of the name, written with its dot as the entries of
  \<open>allowedTypes\<close> are. A name without a dot has no final dot, and so no extension.
\<close>

definition text_after_final_dot :: "string \<Rightarrow> string option" where
  "text_after_final_dot s =
     (if CHR ''.'' \<in> set s then Some (rev (takeWhile (\<lambda>c. c \<noteq> CHR ''.'') (rev s))) else None)"

definition specified_extension :: "File \<Rightarrow> string option" where
  "specified_extension f =
     map_option (\<lambda>t. CHR ''.'' # toLowerCase t) (text_after_final_dot (file_name f))"

text \<open>The type check as the specification words it: the file's extension is an allowed type.\<close>

definition specified_type_allowed :: "File \<Rightarrow> string list \<Rightarrow> bool" where
  "specified_type_allowed f allowed =
     (case specified_extension f of None \<Rightarrow> False | Some e \<Rightarrow> e \<in> set allowed)"

section \<open>Case search (components/CaseSearch.tsx)\<close>

record CaseSearch =
  caseNumber :: string
  selectedCourt :: string
  isSearching :: bool
  caseInfo :: "CaseInfo option"
  error :: string

definition validation_message :: string where
  "validation_message =
     ''Por favor, informe o n'' @ [CHR 0xFA] @ ''mero do processo e selecione o tribunal.''"

text \<open>
  \<open>handleSearch\<close> up to its \<open>await\<close>: the new state, and the case number and court the
  pending search has captured when the simulated request was started (\<open>None\<close> when the
  handler returned without starting it).
\<close>

definition handleSearch :: "CaseSearch \<Rightarrow> CaseSearch \<times> (string \<times> string) option" where
  "handleSearch s =
     (if trim (caseNumber s) = [] \<or> selectedCourt s = []
      then (s\<lparr>error := validation_message\<rparr>, None)
      else (s\<lparr>isSearching := True, error := [], caseInfo := None\<rparr>,
            Some (caseNumber s, selectedCourt s)))"

definition mock_timeline :: "CaseEvent list" where
  "mock_timeline =
     [\<lparr>event_id = ''1'', event_date = 1705276800000,
       event_description = ''Distribui'' @ [CHR 0xE7, CHR 0xE3] @ ''o do processo'',
       event_type = Filing\<rparr>,
      \<lparr>event_id = ''2'', event_date = 1706745600000,
       event_description = ''Cita'' @ [CHR 0xE7, CHR 0xE3] @ ''o da parte requerida'',
       event_type = Filing\<rparr>,
      \<lparr>event_id = ''3'', event_date = 1708387200000,
       event_description = ''Apresenta'' @ [CHR 0xE7, CHR 0xE3] @ ''o de contesta''
                           @ [CHR 0xE7, CHR 0xE3] @ ''o'',
       event_type = Filing\<rparr>,
      \<lparr>event_id = ''4'', event_date = 1710028800000,
       event_description = ''Audi'' @ [CHR 0xEA] @ ''ncia de concilia''
                           @ [CHR 0xE7, CHR 0xE3] @ ''o designada'',
       event_type = Hearing\<rparr>]"

definition mock_deadlines :: "Deadline list" where
  "mock_deadlines =
     [\<lparr>deadline_id = ''1'', deadline_date = 1710028800000,
       deadline_description = ''Audi'' @ [CHR 0xEA] @ ''ncia de concilia'' @ [CHR 0xE7, CHR 0xE3] @ ''o'',
       deadline_priority = High, completed = False\<rparr>,
      \<lparr>deadline_id = ''2'', deadline_date = 1711324800000,
       deadline_description = ''Prazo para manifesta'' @ [CHR 0xE7, CHR 0xE3]
                              @ ''o sobre documentos'',
       deadline_priority = Medium, completed = False\<rparr>]"

text \<open>
  \<open>handleSearch\<close> after the simulated request: the mock case is stored and the
  \<open>finally\<close> block clears \<open>isSearching\<close>.
\<close>

definition handleSearch_resume :: "Court list \<Rightarrow> date \<Rightarrow> string \<times> string \<Rightarrow> CaseSearch \<Rightarrow> CaseSearch" where
  "handleSearch_resume courts' today captured s =
     (let court = (case find (\<lambda>c. court_id c = snd captured) courts' of
                     None \<Rightarrow> snd captured
                   | Some c \<Rightarrow> if court_name c = [] then snd captured else court_name c);
          mockCaseInfo =
            \<lparr>case_number = fst captured, case_court = court, case_status = ''Em andamento'',
             case_parties = [''Jo'' @ [CHR 0xE3] @ ''o Silva'', ''Empresa XYZ Ltda.''],
             subject = ''A'' @ [CHR 0xE7, CHR 0xE3] @ ''o de Cobran'' @ [CHR 0xE7] @ ''a'',
             lastUpdate = today, timeline = mock_timeline, deadlines = mock_deadlines\<rparr>
      in s\<lparr>caseInfo := Some mockCaseInfo, isSearching := False\<rparr>)"

section \<open>The main page (pages/MainPage.tsx)\<close>

datatype ActiveFeature = Chat | Upload | Case_search | Contract | Jurisprudence

record MainPage =
  activeFeature :: "ActiveFeature option"
  messages :: "ChatMessage list"
  documents :: "Document list"
  currentMessage :: string

definition greeting :: "BrandingConfig \<Rightarrow> string" where
  "greeting b =
     ''Ol'' @ [CHR 0xE1] @ ''! Sou o '' @ template_string (appName b)
     @ '', seu assistente jur'' @ [CHR 0xED] @ ''dico inteligente. Como posso ajud''
     @ [CHR 0xE1] @ ''-lo hoje?''"

definition clearChat :: "BrandingConfig \<Rightarrow> date \<Rightarrow> MainPage \<Rightarrow> MainPage" where
  "clearChat b today s =
     s\<lparr>messages :=
         [\<lparr>msg_id = ''1'', msg_type = Assistant, content = greeting b, timestamp = today,
           metadata = None\<rparr>]\<rparr>"

text \<open>
  \<open>handleSendMessage\<close>, the part that runs at once: the user's message is appended and
  the input cleared, unless the input is blank.
\<close>

definition handleSendMessage :: "date \<Rightarrow> MainPage \<Rightarrow> MainPage" where
  "handleSendMessage today s =
     (if trim (currentMessage s) = [] then s
      else s\<lparr>messages := messages s @
                [\<lparr>msg_id = number_string today, msg_type = User, content = currentMessage s,
                  timestamp = today, metadata = None\<rparr>],
             currentMessage := []\<rparr>)"

section \<open>Start-up (App.tsx)\<close>

text \<open>
  The state of \<open>App\<close> with the module's \<open>apiClient\<close>, the log of \<open>console.error\<close>, and
  the arguments \<open>initializeApi\<close> was called with (\<open>None\<close> for \<open>null\<close>).
\<close>

record App =
  appConfig :: "AppConfig option"
  isSetupComplete :: bool
  isLoading :: bool
  apiClient :: "ApiClient option"
  console_errors :: "js_error list"
  initializeApi_calls :: "AppConfig option list"

definition initial_App :: App where
  "initial_App =
     \<lparr>appConfig = None, isSetupComplete = False, isLoading = True, apiClient = None,
      console_errors = [], initializeApi_calls = []\<rparr>"

text \<open>
  \<open>initializeApi(config)\<close>: the constructor reads \<open>config.api\<close>, which throws on
  \<open>null\<close> and leaves \<open>apiClient\<close> as it was.
\<close>

definition initializeApi :: "AppConfig option \<Rightarrow> App \<Rightarrow> js_error + App" where
  "initializeApi config s =
     (case config of
        None \<Rightarrow> Inl (TypeError ''Cannot read properties of null'')
      | Some c \<Rightarrow> Inr (s\<lparr>apiClient := Some (new_ApiClient c)\<rparr>))"

text \<open>
  \<open>loadAppConfig\<close>, given how the fetch of \<open>/config/app.json\<close> settled. The body of an
  \<open>ok\<close> response parses to a configuration or to \<open>null\<close>, or fails to parse.
\<close>

definition loadAppConfig :: "AppConfig option response settled \<Rightarrow> App \<Rightarrow> App" where
  "loadAppConfig fetched s =
     (case fetched of
        Rejected e \<Rightarrow> s\<lparr>console_errors := console_errors s @ [e]\<rparr>
      | Fulfilled response \<Rightarrow>
          if ok response then
            (case json response of
               Rejected e \<Rightarrow> s\<lparr>console_errors := console_errors s @ [e]\<rparr>
             | Fulfilled config \<Rightarrow>
                 (let s' = s\<lparr>appConfig := config,
                              initializeApi_calls := initializeApi_calls s @ [config]\<rparr>
                  in case initializeApi config s' of
                       Inl e \<Rightarrow> s'\<lparr>console_errors := console_errors s' @ [e]\<rparr>
                     | Inr s'' \<Rightarrow> s''))
          else s)"

text \<open>\<open>checkSetupStatus\<close>, given what \<open>localStorage\<close> holds under \<open>setupComplete\<close>.\<close>

definition checkSetupStatus :: "string option \<Rightarrow> App \<Rightarrow> App" where
  "checkSetupStatus setupComplete s =
     s\<lparr>isSetupComplete := (setupComplete = Some ''true''), isLoading := False\<rparr>"

text \<open>
  What \<open>App\<close> renders: the loading screen, or the router with the branding and the
  configuration it hands to the pages.
\<close>

datatype screen = LoadingScreen | Routes BrandingConfig AppConfig bool

definition render :: "BrandingConfig \<Rightarrow> bool \<Rightarrow> App \<Rightarrow> screen" where
  "render b brandingLoading s =
     (if isLoading s \<or> brandingLoading \<or> appConfig s = None then LoadingScreen
      else (case appConfig s of
              None \<Rightarrow> LoadingScreen
            | Some config \<Rightarrow> Routes b config (isSetupComplete s)))"

text \<open>The load has failed when the fetch is rejected or the response is not \<open>ok\<close>.\<close>

definition load_failed :: "'a response settled \<Rightarrow> bool" where
  "load_failed fetched = (case fetched of Rejected e \<Rightarrow> True | Fulfilled r \<Rightarrow> \<not> ok r)"

section \<open>Concrete inputs\<close>

text \<open>A page in light mode with a favicon link, and the store right after start-up.\<close>

definition light_page :: dom where
  "light_page =
     \<lparr>darkClass = False, style = Map.empty, title = ''JurisAI'', faviconHref = Some ''/favicon.ico''\<rparr>"

definition fresh_store :: BrandingStore where
  "fresh_store = initial_store Map.empty (\<lambda>v. True) light_page"

text \<open>
  A storage area that is nearly full: it has room for a record only when the logo is at
  most 64 characters long. \<open>logo_upload\<close> is the update the wizard makes after an image
  was chosen as the logo, a data URL.
\<close>

definition crowded_store :: BrandingStore where
  "crowded_store =
     initial_store Map.empty
       (\<lambda>v. case v of JSON_text b \<Rightarrow> length (template_string (logo b)) \<le> 64
                      | Raw_text t \<Rightarrow> length t \<le> 64)
       light_page"

definition no_update :: PartialBranding where
  "no_update =
     \<lparr>new_appName = Absent, new_tagline = Absent, new_logo = Absent, new_favicon = Absent,
      new_colors = Absent, new_fonts = Absent, new_contact = Absent\<rparr>"

text \<open>\<^verbatim>\<open>{colors: {light: {primary: '#000000'}}}\<close>: an override of one key of one scheme.\<close>

definition light_primary_override :: PartialBranding where
  "light_primary_override =
     no_update\<lparr>new_colors := Present (Some
       \<lparr>light = Some \<lparr>primary = Some ''#000000'', secondary = None, accent = None,
                      background = None, surface = None, text_color = None,
                      textSecondary = None\<rparr>,
        dark = None\<rparr>)\<rparr>"

text \<open>\<^verbatim>\<open>{appName: undefined}\<close>, which \<open>Partial<BrandingConfig>\<close> admits.\<close>

definition undefined_name :: PartialBranding where
  "undefined_name = no_update\<lparr>new_appName := Present None\<rparr>"

definition logo_upload :: PartialBranding where
  "logo_upload =
     no_update\<lparr>new_logo := Present (Some
       (''data:image/png;base64,iVBORw0KGgoAAAANSUhEUgAAAAEAAAABCAYAAAAfFcSJAAAADUlEQVR42mNk''
        @ ''YPhfDwAChwGA60e6kgAAAABJRU5ErkJggg==''))\<rparr>"

text \<open>A rebranding with a new name and a complete pair of colour schemes.\<close>

definition rebranding :: PartialBranding where
  "rebranding =
     no_update\<lparr>new_appName := Present (Some ''Lex''),
       new_colors := Present (Some
         \<lparr>light = Some
            \<lparr>primary = Some ''#000000'', secondary = Some ''#111111'', accent = Some ''#222222'',
             background = Some ''#ffffff'', surface = Some ''#eeeeee'',
             text_color = Some ''#333333'', textSecondary = Some ''#444444''\<rparr>,
          dark = Some
            \<lparr>primary = Some ''#ffffff'', secondary = Some ''#eeeeee'', accent = Some ''#dddddd'',
             background = Some ''#000000'', surface = Some ''#111111'',
             text_color = Some ''#cccccc'', textSecondary = Some ''#bbbbbb''\<rparr>\<rparr>)\<rparr>"

text \<open>A configuration that allows PDF files of up to one mebibyte.\<close>

definition pdf_config :: AppConfig where
  "pdf_config =
     \<lparr>api = \<lparr>baseUrl = ''http://localhost:5000'', timeout = 30000\<rparr>,
      features = \<lparr>documentAnalysis = True, caseSearch = True, contractAnalysis = True,
                  jurisprudenceSearch = True, mindMap = True\<rparr>,
      courts = [\<lparr>court_id = ''tjsp'', court_name = ''TJSP'', court_url = ''https://www.tjsp.jus.br'',
                 court_type = Estadual\<rparr>],
      fileUpload = \<lparr>maxSize = 1048576, allowedTypes = [''.pdf''], maxFiles = 5\<rparr>,
      security = \<lparr>enableCSRF = True, enableCORS = True, maxRequestSize = 1048576,
                  rateLimiting = \<lparr>enabled = False, requests = 100, window = 60\<rparr>\<rparr>\<rparr>"

definition small_pdf :: dropped where
  "small_pdf =
     \<lparr>dropped_file = \<lparr>file_name = ''a.pdf'', file_type = ''application/pdf'', file_size = 1024\<rparr>,
      fresh_id = ''1700000000000k3j9x2m1q'', now = 1700000000000\<rparr>"

definition large_pdf :: dropped where
  "large_pdf =
     \<lparr>dropped_file = \<lparr>file_name = ''b.pdf'', file_type = ''application/pdf'', file_size = 2097152\<rparr>,
      fresh_id = ''1700000000001p0o9i8u7y'', now = 1700000000001\<rparr>"

text \<open>A PDF document that was saved under the name \<open>pdf\<close>, with no extension.\<close>

definition bare_pdf :: dropped where
  "bare_pdf =
     \<lparr>dropped_file = \<lparr>file_name = ''pdf'', file_type = ''application/pdf'', file_size = 1024\<rparr>,
      fresh_id = ''1700000000003z9y8x7w6v'', now = 1700000000003\<rparr>"

definition large_txt :: dropped where
  "large_txt =
     \<lparr>dropped_file = \<lparr>file_name = ''notes.txt'', file_type = ''text/plain'', file_size = 2097152\<rparr>,
      fresh_id = ''1700000000002a1s2d3f4g'', now = 1700000000002\<rparr>"

text \<open>The search form with a blank case number, a court chosen and an earlier result shown.\<close>

definition earlier_case :: CaseInfo where
  "earlier_case =
     \<lparr>case_number = ''0001234-56.2024.8.26.0100'', case_court = ''TJSP'',
      case_status = ''Em andamento'', case_parties = [], subject = ''Cobranca'',
      lastUpdate = 1700000000000, timeline = [], deadlines = []\<rparr>"

definition blank_search :: CaseSearch where
  "blank_search =
     \<lparr>caseNumber = ''   '', selectedCourt = ''tjsp'', isSearching = False,
      caseInfo = Some earlier_case, error = []\<rparr>"

text \<open>A client, and the responses of a server that answers 404 and of one that answers 200.\<close>

definition local_client :: ApiClient where
  "local_client = new_ApiClient pdf_config"

definition not_found :: "string response" where
  "not_found = \<lparr>ok = False, status = 404, json = Fulfilled ''{}''\<rparr>"

definition post_search :: RequestInit where
  "post_search = \<lparr>http_method = Some ''POST'', body = Some ''{}'', headers = []\<rparr>"

definition config_not_found :: "AppConfig option response" where
  "config_not_found = \<lparr>ok = False, status = 404, json = Rejected (SyntaxError ''Unexpected token'')\<rparr>"

section \<open>Properties of the branding store\<close>

lemma updateBranding_branding:
  "branding (fst (updateBranding n s)) = spread_branding (branding s) n"
  by (simp add: updateBranding_def setItem_branding_def Let_def split: sum.split)

lemma updateBranding_has_room: "has_room (fst (updateBranding n s)) = has_room s"
  by (simp add: updateBranding_def setItem_branding_def Let_def split: sum.split)

lemma updateBranding_localStorage:
  "localStorage (fst (updateBranding n s)) =
     (if has_room s (JSON_text (spread_branding (branding s) n))
      then (localStorage s)(''branding'' \<mapsto> JSON_text (spread_branding (branding s) n))
      else localStorage s)"
  by (simp add: updateBranding_def setItem_branding_def Let_def split: sum.split)

lemma updateBranding_quota:
  "has_room s (JSON_text (spread_branding (branding s) n))
   \<or> snd (updateBranding n s) = Some QuotaExceededError"
  by (simp add: updateBranding_def setItem_branding_def Let_def split: sum.split)

text \<open>
  C1, as the code has it. \<open>updateBranding\<close> merges the update over the current record
  one top-level key at a time: a key the update owns takes the update's value, every other
  key keeps its current value. The \<open>colors\<close> key is no exception: a supplied \<open>colors\<close>
  value replaces the whole current \<open>colors\<close> object, with both schemes. The merged record
  is then written under \<open>branding\<close>: it is the stored value when the storage has room for
  it; when it has not, the stored value stays as it was and \<open>QuotaExceededError\<close>
  escapes.
\<close>

theorem updateBranding_merges_top_level_keys:
  "appName (branding (fst (updateBranding n s))) = spread (appName (branding s)) (new_appName n)
   \<and> tagline (branding (fst (updateBranding n s))) = spread (tagline (branding s)) (new_tagline n)
   \<and> logo (branding (fst (updateBranding n s))) = spread (logo (branding s)) (new_logo n)
   \<and> favicon (branding (fst (updateBranding n s))) = spread (favicon (branding s)) (new_favicon n)
   \<and> colors (branding (fst (updateBranding n s))) =
       (case new_colors n of Absent \<Rightarrow> colors (branding s) | Present v \<Rightarrow> v)
   \<and> fonts (branding (fst (updateBranding n s))) = spread (fonts (branding s)) (new_fonts n)
   \<and> contact (branding (fst (updateBranding n s))) = spread (contact (branding s)) (new_contact n)
   \<and> localStorage (fst (updateBranding n s)) ''branding''
       = (if has_room s (JSON_text (branding (fst (updateBranding n s))))
          then Some (JSON_text (branding (fst (updateBranding n s))))
          else localStorage s ''branding'')
   \<and> (has_room s (JSON_text (branding (fst (updateBranding n s))))
        \<or> snd (updateBranding n s) = Some QuotaExceededError)"
  using updateBranding_quota [of s n]
  by (simp add: updateBranding_branding updateBranding_localStorage spread_branding_def spread_def)

text \<open>
  C1 as stated fails: on the defaults, the override of the light scheme's primary colour
  leaves a \<open>colors\<close> object that has lost the dark scheme and the six other light keys,
  where the merge at the level of the colour scheme would have kept them.
\<close>

theorem colors_override_replaces_both_schemes:
  "colors (branding (fst (updateBranding light_primary_override fresh_store))) =
     Some \<lparr>light = Some \<lparr>primary = Some ''#000000'', secondary = None, accent = None,
                         background = None, surface = None, text_color = None,
                         textSecondary = None\<rparr>,
           dark = None\<rparr>
   \<and> branding (fst (updateBranding light_primary_override fresh_store))
       \<noteq> specified_merge (branding fresh_store) light_primary_override"
  by (simp add: updateBranding_branding spread_branding_def spread_def light_primary_override_def
      no_update_def fresh_store_def initial_store_def specified_merge_def merge_colors_def
      merge_scheme_def merge_key_def defaultBranding_def)

text \<open>
  The write that finds no room: on the crowded storage the wizard's logo upload changes
  the record, stores nothing and lets the exception escape.
\<close>

lemma logo_upload_on_crowded_store:
  "new_logo logo_upload = Present (logo (branding (fst (updateBranding logo_upload crowded_store))))
   \<and> localStorage (fst (updateBranding logo_upload crowded_store)) ''branding'' = None
   \<and> snd (updateBranding logo_upload crowded_store) = Some QuotaExceededError"
proof -
  have "\<not> has_room crowded_store
          (JSON_text (spread_branding (branding crowded_store) logo_upload))"
    by (simp add: crowded_store_def initial_store_def spread_branding_def spread_def
        logo_upload_def no_update_def template_string_def)
  then have "localStorage (fst (updateBranding logo_upload crowded_store)) ''branding'' = None
      \<and> snd (updateBranding logo_upload crowded_store) = Some QuotaExceededError"
    using updateBranding_quota [of crowded_store logo_upload]
    by (simp add: updateBranding_localStorage) (simp add: crowded_store_def initial_store_def)
  moreover have "new_logo logo_upload
      = Present (logo (branding (fst (updateBranding logo_upload crowded_store))))"
    by (simp add: updateBranding_branding spread_branding_def spread_def logo_upload_def
        no_update_def)
  ultimately show ?thesis by simp
qed

lemma spread_populated:
  "complete cur \<Longrightarrow> supplied complete p \<Longrightarrow> complete (spread cur p)"
  by (cases p) (simp_all add: spread_def supplied_def)

lemma spread_branding_populated:
  assumes "populated b" and "complete_update n"
  shows "populated (spread_branding b n)"
proof -
  have "appName (spread_branding b n) \<noteq> None"
    using assms spread_populated [of "\<lambda>v. v \<noteq> None" "appName b" "new_appName n"]
    by (simp add: populated_def complete_update_def spread_branding_def)
  moreover have "tagline (spread_branding b n) \<noteq> None"
    using assms spread_populated [of "\<lambda>v. v \<noteq> None" "tagline b" "new_tagline n"]
    by (simp add: populated_def complete_update_def spread_branding_def)
  moreover have "logo (spread_branding b n) \<noteq> None"
    using assms spread_populated [of "\<lambda>v. v \<noteq> None" "logo b" "new_logo n"]
    by (simp add: populated_def complete_update_def spread_branding_def)
  moreover have "favicon (spread_branding b n) \<noteq> None"
    using assms spread_populated [of "\<lambda>v. v \<noteq> None" "favicon b" "new_favicon n"]
    by (simp add: populated_def complete_update_def spread_branding_def)
  moreover have "colors_populated (colors (spread_branding b n))"
    using assms spread_populated [of colors_populated "colors b" "new_colors n"]
    by (simp add: populated_def complete_update_def spread_branding_def)
  moreover have "fonts_populated (fonts (spread_branding b n))"
    using assms spread_populated [of fonts_populated "fonts b" "new_fonts n"]
    by (simp add: populated_def complete_update_def spread_branding_def)
  moreover have "contact_populated (contact (spread_branding b n))"
    using assms spread_populated [of contact_populated "contact b" "new_contact n"]
    by (simp add: populated_def complete_update_def spread_branding_def)
  ultimately show ?thesis by (simp add: populated_def)
qed

lemma sequence_populated:
  "populated (branding s) \<Longrightarrow> list_all complete_update ns \<Longrightarrow>
   populated (branding (updateBranding_sequence ns s))"
proof (induction ns arbitrary: s)
  case Nil
  then show ?case by simp
next
  case (Cons n ns)
  from Cons.prems have "populated (branding (fst (updateBranding n s)))"
    by (simp add: updateBranding_branding spread_branding_populated)
  with Cons show ?case by simp
qed

lemma sequence_has_room: "has_room (updateBranding_sequence ns s) = has_room s"
  by (induction ns arbitrary: s) (simp_all add: updateBranding_has_room)

lemma sequence_stored:
  "writes_accepted ns s \<Longrightarrow>
   localStorage (updateBranding_sequence ns s) ''branding'' =
     (if ns = [] then localStorage s ''branding''
      else Some (JSON_text (branding (updateBranding_sequence ns s))))"
proof (induction ns arbitrary: s)
  case Nil
  show ?case by simp
next
  case (Cons n ns)
  show ?case
  proof (cases ns)
    case Nil
    with Cons.prems show ?thesis
      by (simp add: updateBranding_branding updateBranding_localStorage)
  next
    case (Cons m ms)
    with Cons.IH [of "fst (updateBranding n s)"] Cons.prems show ?thesis by simp
  qed
qed

lemma sequence_stored_populated:
  "populated (branding s) \<Longrightarrow> list_all complete_update ns \<Longrightarrow>
   localStorage (updateBranding_sequence ns s) ''branding'' = localStorage s ''branding''
   \<or> (\<exists>b. localStorage (updateBranding_sequence ns s) ''branding'' = Some (JSON_text b)
          \<and> populated b)"
proof (induction ns arbitrary: s)
  case Nil
  show ?case by simp
next
  case (Cons n ns)
  let ?s1 = "fst (updateBranding n s)"
  have p1: "populated (branding ?s1)"
    using Cons.prems by (simp add: updateBranding_branding spread_branding_populated)
  have first: "localStorage ?s1 ''branding'' = localStorage s ''branding''
      \<or> localStorage ?s1 ''branding'' = Some (JSON_text (branding ?s1))"
    by (simp add: updateBranding_localStorage updateBranding_branding)
  from Cons.IH [of ?s1] p1 Cons.prems
  have rest: "localStorage (updateBranding_sequence ns ?s1) ''branding''
        = localStorage ?s1 ''branding''
      \<or> (\<exists>b. localStorage (updateBranding_sequence ns ?s1) ''branding'' = Some (JSON_text b)
             \<and> populated b)"
    by simp
  from first rest p1 show ?case by auto
qed

lemma defaultBranding_populated: "populated defaultBranding"
  by (simp add: populated_def defaultBranding_def colors_populated_def scheme_populated_def
      fonts_populated_def contact_populated_def)

lemma rebranding_complete: "complete_update rebranding"
  by (simp add: complete_update_def rebranding_def no_update_def supplied_def
      colors_populated_def scheme_populated_def)

text \<open>
  C2, as the code has it. Starting from a fully populated record, a sequence of updates
  in which every supplied value is itself complete (no key holds \<open>undefined\<close>, and a
  supplied \<open>colors\<close>, \<open>fonts\<close> or \<open>contact\<close> object has all its keys) leaves every key
  of the record populated, with all seven colours of both schemes. The value stored under
  \<open>branding\<close> is the one from before the sequence or a record with every key populated;
  when the storage had room for every write, it is the resulting record.
\<close>

theorem complete_updates_keep_record_populated:
  assumes "populated (branding s)" and "list_all complete_update ns"
  shows "populated (branding (updateBranding_sequence ns s))
    \<and> (localStorage (updateBranding_sequence ns s) ''branding'' = localStorage s ''branding''
        \<or> (\<exists>b. localStorage (updateBranding_sequence ns s) ''branding'' = Some (JSON_text b)
               \<and> populated b))
    \<and> (writes_accepted ns s \<longrightarrow>
          localStorage (updateBranding_sequence ns s) ''branding'' =
            (if ns = [] then localStorage s ''branding''
             else Some (JSON_text (branding (updateBranding_sequence ns s)))))"
  using assms sequence_populated sequence_stored_populated sequence_stored by blast

text \<open>
  Witness for C2: a rebranding and an empty update, applied to the defaults on a storage
  with room.
\<close>

theorem complete_updates_keep_record_populated_witness:
  "populated (branding fresh_store) \<and> list_all complete_update [rebranding, no_update]
   \<and> writes_accepted [rebranding, no_update] fresh_store
   \<and> populated (branding (updateBranding_sequence [rebranding, no_update] fresh_store))
   \<and> localStorage (updateBranding_sequence [rebranding, no_update] fresh_store) ''branding'' =
       Some (JSON_text (branding (updateBranding_sequence [rebranding, no_update] fresh_store)))"
proof -
  have p: "populated (branding fresh_store)"
    by (simp add: fresh_store_def initial_store_def defaultBranding_populated)
  have c: "list_all complete_update [rebranding, no_update]"
    by (simp add: rebranding_complete) (simp add: complete_update_def no_update_def supplied_def)
  have w: "writes_accepted [rebranding, no_update] fresh_store"
    by (simp add: updateBranding_has_room) (simp add: fresh_store_def initial_store_def)
  from complete_updates_keep_record_populated [OF p c] p c w show ?thesis by simp
qed

text \<open>
  C2 as stated fails: from the defaults, one update with a partial \<open>colors\<close> object, or
  one that holds \<open>undefined\<close> under \<open>appName\<close>, leaves a record with undefined keys.
\<close>

theorem partial_update_leaves_keys_undefined:
  "\<not> populated (branding (updateBranding_sequence [light_primary_override] fresh_store))
   \<and> \<not> populated (branding (updateBranding_sequence [undefined_name] fresh_store))"
  by (simp add: updateBranding_branding spread_branding_def spread_def light_primary_override_def
      undefined_name_def no_update_def populated_def colors_populated_def scheme_populated_def)

lemma applyBrandingToDOM_default: "\<exists>d'. applyBrandingToDOM defaultBranding d = Inr d'"
  by (simp add: applyBrandingToDOM_def defaultBranding_def)

text \<open>
  C3. After any sequence of \<open>updateBranding\<close> calls, from any state, \<open>resetBranding\<close>
  leaves the record equal to \<open>defaultBranding\<close> and no value stored under \<open>branding\<close>,
  and it returns without an exception.
\<close>

theorem resetBranding_restores_defaults:
  "branding (fst (resetBranding (updateBranding_sequence ns s))) = defaultBranding
   \<and> localStorage (fst (resetBranding (updateBranding_sequence ns s))) ''branding'' = None
   \<and> snd (resetBranding (updateBranding_sequence ns s)) = None"
proof -
  obtain d' where
    "applyBrandingToDOM defaultBranding (document (updateBranding_sequence ns s)) = Inr d'"
    using applyBrandingToDOM_default by blast
  then show ?thesis by (simp add: resetBranding_def Let_def)
qed

section \<open>Properties of the API client\<close>

lemma request_timer_fires:
  "network (request_call client endpoint options) = TimerFires \<Longrightarrow>
   request client network endpoint options = Inl (new_Error ''Request timeout'')"
  by (simp add: request_def fetch_def request_catch_def AbortError_def)

lemma request_not_ok:
  "network (request_call client endpoint options) = FetchSettles (Fulfilled r) \<Longrightarrow> \<not> ok r \<Longrightarrow>
   request client network endpoint options
     = Inl (new_Error (''HTTP error! status: '' @ number_string (status r)))"
  by (simp add: request_def fetch_def request_catch_def new_Error_def)

lemma request_transport_failure:
  "network (request_call client endpoint options) = FetchSettles (Rejected (TypeError m)) \<Longrightarrow>
   request client network endpoint options = Inl (TypeError m)"
  by (simp add: request_def fetch_def request_catch_def TypeError_def)

text \<open>
  C4. When the timer fires before the fetch of a call has settled, \<open>request\<close> fails
  with the error \<open>Request timeout\<close>. That error differs from the one \<open>request\<close>
  raises for a response that is not \<open>ok\<close> (\<open>HTTP error! status: N\<close>) and from a
  transport failure (the \<open>TypeError\<close> of the fetch, raised again as it is).
\<close>

theorem request_timeout_is_classified:
  fixes network :: "fetch_call \<Rightarrow> 'a race" and r :: "'a response"
  assumes "network (request_call client endpoint options) = TimerFires"
  shows "request client network endpoint options = Inl (new_Error ''Request timeout'')
    \<and> (\<not> ok r \<longrightarrow>
         request client (\<lambda>c. FetchSettles (Fulfilled r)) endpoint options
           = Inl (new_Error (''HTTP error! status: '' @ number_string (status r)))
         \<and> request client (\<lambda>c. FetchSettles (Fulfilled r)) endpoint options
           \<noteq> request client network endpoint options)
    \<and> request client (\<lambda>c. FetchSettles (Rejected (TypeError m))) endpoint options
         = (Inl (TypeError m) :: js_error + 'a)
    \<and> request client (\<lambda>c. FetchSettles (Rejected (TypeError m))) endpoint options
         \<noteq> request client network endpoint options"
proof -
  have t: "request client network endpoint options = Inl (new_Error ''Request timeout'')"
    using assms by (rule request_timer_fires)
  have h: "new_Error (''HTTP error! status: '' @ number_string (status r))
             \<noteq> new_Error ''Request timeout''"
    by (simp add: new_Error_def)
  have e: "TypeError m \<noteq> new_Error ''Request timeout''"
    by (simp add: TypeError_def new_Error_def)
  show ?thesis using t h e
    by (simp add: request_not_ok request_transport_failure)
qed

text \<open>
  Witness for C4: a timed-out search, a 404 response and a refused connection.
\<close>

theorem request_timeout_is_classified_witness:
  "request local_client (\<lambda>c. TimerFires) ''/api/cases/search'' post_search
     = (Inl (new_Error ''Request timeout'') :: js_error + string)
   \<and> \<not> ok not_found
   \<and> request local_client (\<lambda>c. FetchSettles (Fulfilled not_found)) ''/api/cases/search'' post_search
     = Inl (new_Error ''HTTP error! status: 404'')
   \<and> request local_client (\<lambda>c. FetchSettles (Rejected (TypeError ''Failed to fetch'')))
        ''/api/cases/search'' post_search
     = (Inl (TypeError ''Failed to fetch'') :: js_error + string)"
proof -
  have n: "\<not> ok not_found" by (simp add: not_found_def)
  have s: "number_string (status not_found) = ''404''" by code_simp
  have t: "(\<lambda>c. TimerFires :: string race)
      (request_call local_client ''/api/cases/search'' post_search) = TimerFires" by simp
  from request_timeout_is_classified [OF t, where r = not_found and m = "''Failed to fetch''"] n s
  show ?thesis by simp
qed

section \<open>Properties of the drop handler\<close>

lemma split_not_empty: "split sep s \<noteq> []"
  by (induction s) (auto split: list.split)

lemma split_single: "(tl (split sep s) = []) = (sep \<notin> set s)"
  by (induction s) (auto split: list.split simp: split_not_empty)

lemma hd_split_no_separator: "sep \<notin> set s \<Longrightarrow> split sep s = [s]"
  by (induction s) (auto split: list.split)

lemma takeWhile_snoc_separator:
  "takeWhile (\<lambda>c. c \<noteq> sep) (xs @ [sep]) = takeWhile (\<lambda>c. c \<noteq> sep) xs"
  by (induction xs) auto

lemma last_split: "last (split sep s) = rev (takeWhile (\<lambda>c. c \<noteq> sep) (rev s))"
proof (induction s)
  case Nil
  show ?case by simp
next
  case (Cons c cs)
  show ?case
  proof (cases "c = sep")
    case True
    then show ?thesis
      using Cons by (simp add: split_not_empty takeWhile_snoc_separator)
  next
    case False
    show ?thesis
    proof (cases "sep \<in> set cs")
      case True
      then obtain x y ys where s: "split sep cs = x # y # ys"
        using split_single [of sep cs] split_not_empty [of sep cs]
        by (cases "split sep cs"; cases "tl (split sep cs)") auto
      have "takeWhile (\<lambda>c. c \<noteq> sep) (rev cs @ [c]) = takeWhile (\<lambda>c. c \<noteq> sep) (rev cs)"
        using True by (simp add: takeWhile_append1 [where x = sep])
      with Cons s False show ?thesis by simp
    next
      case no: False
      then have "\<And>x. x \<in> set (rev cs) \<Longrightarrow> x \<noteq> sep" by auto
      then have "takeWhile (\<lambda>c. c \<noteq> sep) (rev cs @ [c]) = rev cs @ takeWhile (\<lambda>c. c \<noteq> sep) [c]"
        by (rule takeWhile_append2)
      then have "rev (takeWhile (\<lambda>c. c \<noteq> sep) (rev (c # cs))) = c # cs"
        using False by simp
      moreover have "last (split sep (c # cs)) = c # cs"
        using no False by (simp add: hd_split_no_separator)
      ultimately show ?thesis by (simp only:)
    qed
  qed
qed

lemma fileExtension_last_segment:
  "fileExtension f =
     CHR ''.'' # toLowerCase (rev (takeWhile (\<lambda>c. c \<noteq> CHR ''.'') (rev (file_name f))))"
  by (simp add: fileExtension_def pop_def split_not_empty last_split template_string_def)

lemma specified_extension_dotted:
  "CHR ''.'' \<in> set (file_name f) \<Longrightarrow> specified_extension f = Some (fileExtension f)"
  by (simp add: specified_extension_def text_after_final_dot_def fileExtension_last_segment)

lemma specified_type_allowed_dotted:
  "CHR ''.'' \<in> set (file_name f) \<Longrightarrow>
   specified_type_allowed f allowed = validateFileType f allowed"
  by (simp add: specified_type_allowed_def specified_extension_dotted validateFileType_def)

lemma forEach_newDocuments:
  "newDocuments (onDrop_forEach cfg ds e)
     = newDocuments e @ map new_document (filter (accepted cfg) ds)"
  by (induction ds arbitrary: e) (simp_all add: onDrop_file_def accepted_def)

lemma forEach_uploads:
  "uploads (onDrop_forEach cfg ds e)
     = uploads e @ map (\<lambda>d. (fresh_id d, dropped_file d)) (filter (accepted cfg) ds)"
  by (induction ds arbitrary: e) (simp_all add: onDrop_file_def accepted_def new_document_def)

lemma forEach_alerts_mono: "set (alerts e) \<subseteq> set (alerts (onDrop_forEach cfg ds e))"
proof (induction ds arbitrary: e)
  case Nil
  show ?case by simp
next
  case (Cons d ds)
  have "set (alerts e) \<subseteq> set (alerts (onDrop_file cfg d e))"
    by (auto simp: onDrop_file_def)
  with Cons [of "onDrop_file cfg d e"] show ?case by auto
qed

lemma forEach_alert_unsupported:
  "d \<in> set ds \<Longrightarrow> \<not> validateFileType (dropped_file d) (allowedTypes (fileUpload cfg)) \<Longrightarrow>
   UnsupportedType (file_name (dropped_file d)) \<in> set (alerts (onDrop_forEach cfg ds e))"
proof (induction ds arbitrary: e)
  case Nil
  then show ?case by simp
next
  case (Cons x xs)
  show ?case
  proof (cases "d = x")
    case True
    with Cons.prems have "UnsupportedType (file_name (dropped_file d)) \<in> set (alerts (onDrop_file cfg x e))"
      by (simp add: onDrop_file_def)
    then show ?thesis using forEach_alerts_mono [of "onDrop_file cfg x e" cfg xs] by auto
  next
    case False
    with Cons show ?thesis by simp
  qed
qed

lemma forEach_alert_too_large:
  "d \<in> set ds \<Longrightarrow> validateFileType (dropped_file d) (allowedTypes (fileUpload cfg)) \<Longrightarrow>
   \<not> validateFileSize (dropped_file d) (maxSize (fileUpload cfg)) \<Longrightarrow>
   TooLarge (file_name (dropped_file d)) (maxSize (fileUpload cfg))
     \<in> set (alerts (onDrop_forEach cfg ds e))"
proof (induction ds arbitrary: e)
  case Nil
  then show ?case by simp
next
  case (Cons x xs)
  show ?case
  proof (cases "d = x")
    case True
    with Cons.prems have "TooLarge (file_name (dropped_file d)) (maxSize (fileUpload cfg))
        \<in> set (alerts (onDrop_file cfg x e))"
      by (simp add: onDrop_file_def)
    then show ?thesis using forEach_alerts_mono [of "onDrop_file cfg x e" cfg xs] by auto
  next
    case False
    with Cons show ?thesis by simp
  qed
qed

lemma document_of_new_document:
  "document_of f (new_document d) \<Longrightarrow> fileExtension f = fileExtension (dropped_file d)
     \<and> file_size f = file_size (dropped_file d)"
  by (simp add: document_of_def new_document_def fileExtension_def)

lemma onDrop_documents:
  "onDrop cfg docs ds = docs @ map new_document (filter (accepted cfg) ds)"
  by (simp add: onDrop_def onDrop_effects_def forEach_newDocuments Let_def)

lemma no_document_for_rejected:
  assumes "\<And>d. d \<in> set ds \<Longrightarrow> accepted cfg d \<Longrightarrow> \<not> document_of f (new_document d)"
  shows "(\<forall>doc \<in> set (newDocuments (onDrop_effects cfg ds)). \<not> document_of f doc)
       \<and> (\<forall>doc \<in> set (onDrop cfg docs ds). document_of f doc \<longrightarrow> doc \<in> set docs)"
  using assms by (auto simp: onDrop_documents onDrop_effects_def forEach_newDocuments)

lemma extension_of_a_pdf:
  "CHR ''.'' # template_string (map_option toLowerCase (pop (split (CHR ''.'') ''a.pdf''))) = ''.pdf''"
  by code_simp

lemma extension_of_b_pdf:
  "CHR ''.'' # template_string (map_option toLowerCase (pop (split (CHR ''.'') ''b.pdf''))) = ''.pdf''"
  by code_simp

lemma extension_of_pdf:
  "CHR ''.'' # template_string (map_option toLowerCase (pop (split (CHR ''.'') ''pdf''))) = ''.pdf''"
  by code_simp

lemma extension_of_notes_txt:
  "CHR ''.'' # template_string (map_option toLowerCase (pop (split (CHR ''.'') ''notes.txt''))) = ''.txt''"
  by code_simp

lemma small_pdf_extension: "fileExtension (dropped_file small_pdf) = ''.pdf''"
  by (simp only: fileExtension_def small_pdf_def dropped.simps File.simps extension_of_a_pdf)

lemma large_pdf_extension: "fileExtension (dropped_file large_pdf) = ''.pdf''"
  by (simp only: fileExtension_def large_pdf_def dropped.simps File.simps extension_of_b_pdf)

lemma large_txt_extension: "fileExtension (dropped_file large_txt) = ''.txt''"
  by (simp only: fileExtension_def large_txt_def dropped.simps File.simps extension_of_notes_txt)

lemma pdf_config_limits:
  "allowedTypes (fileUpload pdf_config) = [''.pdf'']" "maxSize (fileUpload pdf_config) = 1048576"
  by (simp_all add: pdf_config_def)

text \<open>
  On names with a dot the type check is the specified one: for a dropped file whose name
  has a dot and whose extension is not an allowed type, the alert for an unsupported type is shown, no
  document with its name, type and size is among the new documents, the document list
  gains none, and no upload is started with it.
\<close>

lemma dotted_name_of_unsupported_type_never_added:
  assumes "d \<in> set acceptedFiles"
    and "CHR ''.'' \<in> set (file_name (dropped_file d))"
    and "\<not> specified_type_allowed (dropped_file d) (allowedTypes (fileUpload cfg))"
  shows "UnsupportedType (file_name (dropped_file d)) \<in> set (alerts (onDrop_effects cfg acceptedFiles))
    \<and> (\<forall>doc \<in> set (newDocuments (onDrop_effects cfg acceptedFiles)).
          \<not> document_of (dropped_file d) doc)
    \<and> (\<forall>doc \<in> set (onDrop cfg docs acceptedFiles).
          document_of (dropped_file d) doc \<longrightarrow> doc \<in> set docs)
    \<and> dropped_file d \<notin> snd ` set (uploads (onDrop_effects cfg acceptedFiles))"
proof -
  have bad: "\<not> validateFileType (dropped_file d) (allowedTypes (fileUpload cfg))"
    using assms(2,3) by (simp add: specified_type_allowed_dotted)
  then have ext: "fileExtension (dropped_file d) \<notin> set (allowedTypes (fileUpload cfg))"
    by (simp add: validateFileType_def)
  have a: "UnsupportedType (file_name (dropped_file d)) \<in> set (alerts (onDrop_effects cfg acceptedFiles))"
    unfolding onDrop_effects_def using assms(1) bad by (rule forEach_alert_unsupported)
  have "\<And>x. x \<in> set acceptedFiles \<Longrightarrow> accepted cfg x \<Longrightarrow> \<not> document_of (dropped_file d) (new_document x)"
  proof
    fix x assume "accepted cfg x" and "document_of (dropped_file d) (new_document x)"
    then have "fileExtension (dropped_file d) \<in> set (allowedTypes (fileUpload cfg))"
      using document_of_new_document [of "dropped_file d" x]
      by (simp add: accepted_def validateFileType_def)
    with ext show False by simp
  qed
  then have b: "(\<forall>doc \<in> set (newDocuments (onDrop_effects cfg acceptedFiles)). \<not> document_of (dropped_file d) doc)
       \<and> (\<forall>doc \<in> set (onDrop cfg docs acceptedFiles). document_of (dropped_file d) doc \<longrightarrow> doc \<in> set docs)"
    by (rule no_document_for_rejected)
  have c: "dropped_file d \<notin> snd ` set (uploads (onDrop_effects cfg acceptedFiles))"
    using bad by (auto simp: onDrop_effects_def forEach_uploads accepted_def)
  from a b c show ?thesis by blast
qed

text \<open>
  C5 fails on the code for a name without a dot. The file named \<open>pdf\<close> has no text after
  a final dot, so its extension is not a member of the allowed types \<open>.pdf\<close>; but
  \<open>split('.').pop()\<close> returns the whole name, \<open>validateFileType\<close> looks up \<open>.pdf\<close>
  and accepts the file, and \<open>onDrop\<close> adds its document and starts its upload.
\<close>

theorem name_without_dot_passes_type_check:
  "specified_extension (dropped_file bare_pdf) = None
   \<and> \<not> specified_type_allowed (dropped_file bare_pdf) (allowedTypes (fileUpload pdf_config))
   \<and> fileExtension (dropped_file bare_pdf) = ''.pdf''
   \<and> validateFileType (dropped_file bare_pdf) (allowedTypes (fileUpload pdf_config))
   \<and> alerts (onDrop_effects pdf_config [bare_pdf]) = []
   \<and> onDrop pdf_config [] [bare_pdf] = [new_document bare_pdf]
   \<and> document_of (dropped_file bare_pdf) (new_document bare_pdf)
   \<and> uploads (onDrop_effects pdf_config [bare_pdf]) = [(fresh_id bare_pdf, dropped_file bare_pdf)]"
proof -
  have n: "specified_extension (dropped_file bare_pdf) = None"
    by (simp add: specified_extension_def text_after_final_dot_def bare_pdf_def)
  then have s: "\<not> specified_type_allowed (dropped_file bare_pdf) (allowedTypes (fileUpload pdf_config))"
    by (simp add: specified_type_allowed_def)
  have x: "fileExtension (dropped_file bare_pdf) = ''.pdf''"
    by (simp only: fileExtension_def bare_pdf_def dropped.simps File.simps extension_of_pdf)
  then have v: "validateFileType (dropped_file bare_pdf) (allowedTypes (fileUpload pdf_config))"
    by (simp add: validateFileType_def pdf_config_limits)
  then have a: "accepted pdf_config bare_pdf"
    by (simp add: accepted_def validateFileSize_def pdf_config_limits) (simp add: bare_pdf_def)
  have l: "alerts (onDrop_effects pdf_config [bare_pdf]) = []"
    using a by (simp add: onDrop_effects_def onDrop_file_def accepted_def)
  have u: "uploads (onDrop_effects pdf_config [bare_pdf])
      = [(fresh_id bare_pdf, dropped_file bare_pdf)]"
    unfolding onDrop_effects_def forEach_uploads using a by simp
  have d: "onDrop pdf_config [] [bare_pdf] = [new_document bare_pdf]"
    unfolding onDrop_documents using a by simp
  show ?thesis using n s x v l u d
    by (simp add: document_of_def new_document_def)
qed

text \<open>
  C6, as the code has it. A dropped file larger than \<open>maxSize\<close> never reaches the
  document list. It gets the alert that states the maximum size when it has passed the
  type check, which runs first. A dropped file within the limit passes the size check,
  and is added when it has passed the type check too.
\<close>

theorem oversized_file_rejected:
  assumes "d \<in> set acceptedFiles"
    and "maxSize (fileUpload cfg) < file_size (dropped_file d)"
  shows "(\<forall>doc \<in> set (newDocuments (onDrop_effects cfg acceptedFiles)).
            \<not> document_of (dropped_file d) doc)
    \<and> (\<forall>doc \<in> set (onDrop cfg docs acceptedFiles).
          document_of (dropped_file d) doc \<longrightarrow> doc \<in> set docs)
    \<and> (validateFileType (dropped_file d) (allowedTypes (fileUpload cfg)) \<longrightarrow>
          TooLarge (file_name (dropped_file d)) (maxSize (fileUpload cfg))
            \<in> set (alerts (onDrop_effects cfg acceptedFiles)))
    \<and> (x \<in> set acceptedFiles \<and> file_size (dropped_file x) \<le> maxSize (fileUpload cfg) \<longrightarrow>
          validateFileSize (dropped_file x) (maxSize (fileUpload cfg))
          \<and> (validateFileType (dropped_file x) (allowedTypes (fileUpload cfg)) \<longrightarrow>
               new_document x \<in> set (newDocuments (onDrop_effects cfg acceptedFiles))))"
proof -
  have big: "\<not> validateFileSize (dropped_file d) (maxSize (fileUpload cfg))"
    using assms(2) by (simp add: validateFileSize_def)
  have "\<And>y. y \<in> set acceptedFiles \<Longrightarrow> accepted cfg y \<Longrightarrow> \<not> document_of (dropped_file d) (new_document y)"
  proof
    fix y assume "accepted cfg y" and "document_of (dropped_file d) (new_document y)"
    then have "file_size (dropped_file d) \<le> maxSize (fileUpload cfg)"
      using document_of_new_document [of "dropped_file d" y]
      by (simp add: accepted_def validateFileSize_def)
    with assms(2) show False by simp
  qed
  then have a: "(\<forall>doc \<in> set (newDocuments (onDrop_effects cfg acceptedFiles)).
            \<not> document_of (dropped_file d) doc)
    \<and> (\<forall>doc \<in> set (onDrop cfg docs acceptedFiles).
          document_of (dropped_file d) doc \<longrightarrow> doc \<in> set docs)"
    by (rule no_document_for_rejected)
  have b: "validateFileType (dropped_file d) (allowedTypes (fileUpload cfg)) \<Longrightarrow>
          TooLarge (file_name (dropped_file d)) (maxSize (fileUpload cfg))
            \<in> set (alerts (onDrop_effects cfg acceptedFiles))"
    unfolding onDrop_effects_def using assms(1) big by (simp add: forEach_alert_too_large)
  have c: "x \<in> set acceptedFiles \<Longrightarrow> file_size (dropped_file x) \<le> maxSize (fileUpload cfg) \<Longrightarrow>
          validateFileType (dropped_file x) (allowedTypes (fileUpload cfg)) \<Longrightarrow>
          new_document x \<in> set (newDocuments (onDrop_effects cfg acceptedFiles))"
    by (simp add: onDrop_effects_def forEach_newDocuments accepted_def validateFileSize_def)
  from a b c show ?thesis by (simp add: validateFileSize_def)
qed

text \<open>
  Witness for C6: a PDF of two mebibytes and one of a kibibyte, with a limit of one
  mebibyte.
\<close>

theorem oversized_file_rejected_witness:
  "large_pdf \<in> set [small_pdf, large_pdf]
   \<and> maxSize (fileUpload pdf_config) < file_size (dropped_file large_pdf)
   \<and> validateFileType (dropped_file large_pdf) (allowedTypes (fileUpload pdf_config))
   \<and> small_pdf \<in> set [small_pdf, large_pdf]
   \<and> file_size (dropped_file small_pdf) \<le> maxSize (fileUpload pdf_config)
   \<and> validateFileType (dropped_file small_pdf) (allowedTypes (fileUpload pdf_config))
   \<and> TooLarge ''b.pdf'' 1048576 \<in> set (alerts (onDrop_effects pdf_config [small_pdf, large_pdf]))
   \<and> \<not> (\<exists>doc \<in> set (onDrop pdf_config [] [small_pdf, large_pdf]).
          document_of (dropped_file large_pdf) doc)
   \<and> validateFileSize (dropped_file small_pdf) (maxSize (fileUpload pdf_config))
   \<and> new_document small_pdf \<in> set (newDocuments (onDrop_effects pdf_config [small_pdf, large_pdf]))"
proof -
  have m: "large_pdf \<in> set [small_pdf, large_pdf]" by simp
  have g: "maxSize (fileUpload pdf_config) < file_size (dropped_file large_pdf)"
    by (simp add: pdf_config_limits large_pdf_def)
  have t: "validateFileType (dropped_file large_pdf) (allowedTypes (fileUpload pdf_config))"
    by (simp add: validateFileType_def large_pdf_extension pdf_config_limits)
  have m': "small_pdf \<in> set [small_pdf, large_pdf]" by simp
  have l: "file_size (dropped_file small_pdf) \<le> maxSize (fileUpload pdf_config)"
    by (simp add: pdf_config_limits small_pdf_def)
  have t': "validateFileType (dropped_file small_pdf) (allowedTypes (fileUpload pdf_config))"
    by (simp add: validateFileType_def small_pdf_extension pdf_config_limits)
  have n: "file_name (dropped_file large_pdf) = ''b.pdf''" by (simp add: large_pdf_def)
  from oversized_file_rejected [OF m g, where x = small_pdf and docs = "[]"] m g t m' l t' n
  show ?thesis by (auto simp: pdf_config_limits)
qed

text \<open>
  C6 as stated fails: a text file larger than the limit, dropped where only PDF is
  allowed, is turned away with the alert for the type alone; no alert states the maximum
  size.
\<close>

theorem oversized_unsupported_file_gets_type_message:
  "maxSize (fileUpload pdf_config) < file_size (dropped_file large_txt)
   \<and> alerts (onDrop_effects pdf_config [large_txt]) = [UnsupportedType ''notes.txt'']"
proof -
  have "\<not> validateFileType (dropped_file large_txt) (allowedTypes (fileUpload pdf_config))"
    by (simp add: validateFileType_def large_txt_extension pdf_config_limits)
  then show ?thesis
    by (simp add: onDrop_effects_def onDrop_file_def pdf_config_limits) (simp add: large_txt_def)
qed

section \<open>Properties of the case search\<close>

text \<open>
  C7. When the case number is empty or blank, \<open>handleSearch\<close> sets the validation
  message and returns: no search is pending, \<open>isSearching\<close> and \<open>caseInfo\<close> are
  as before.
\<close>

theorem blank_case_number_is_rejected:
  assumes "trim (caseNumber s) = []"
  shows "handleSearch s = (s\<lparr>error := validation_message\<rparr>, None)
    \<and> error (fst (handleSearch s)) = validation_message
    \<and> snd (handleSearch s) = None
    \<and> isSearching (fst (handleSearch s)) = isSearching s
    \<and> caseInfo (fst (handleSearch s)) = caseInfo s"
  using assms by (simp add: handleSearch_def)

text \<open>
  Witness for C7: a case number of three spaces, with a court chosen and an earlier
  result on display.
\<close>

theorem blank_case_number_is_rejected_witness:
  "trim (caseNumber blank_search) = []
   \<and> handleSearch blank_search = (blank_search\<lparr>error := validation_message\<rparr>, None)
   \<and> isSearching (fst (handleSearch blank_search)) = False
   \<and> caseInfo (fst (handleSearch blank_search)) = Some earlier_case"
proof -
  have b: "trim (caseNumber blank_search) = []"
    by (simp add: blank_search_def trim_def is_whitespace_def)
  from blank_case_number_is_rejected [OF b] b show ?thesis by (simp add: blank_search_def)
qed

section \<open>Properties of the chat\<close>

text \<open>
  C8. Whatever the message list holds, \<open>clearChat\<close> replaces it with a list of exactly
  one message: the greeting of the assistant, whose text is the fixed sentence around the
  application name of the current branding (\<open>undefined\<close> when the branding has none).
\<close>

theorem clearChat_leaves_one_greeting:
  "messages (clearChat b today s) =
     [\<lparr>msg_id = ''1'', msg_type = Assistant,
       content = ''Ol'' @ [CHR 0xE1] @ ''! Sou o ''
                 @ (case appName b of None \<Rightarrow> ''undefined'' | Some a \<Rightarrow> a)
                 @ '', seu assistente jur'' @ [CHR 0xED] @ ''dico inteligente. Como posso ajud''
                 @ [CHR 0xE1] @ ''-lo hoje?'',
       timestamp = today, metadata = None\<rparr>]
   \<and> length (messages (clearChat b today s)) = 1
   \<and> msg_type (hd (messages (clearChat b today s))) = Assistant
   \<and> content (hd (messages (clearChat b today s))) = greeting b
   \<and> content (hd (messages (clearChat b today s))) =
       ''Ol'' @ [CHR 0xE1] @ ''! Sou o ''
       @ (case appName b of None \<Rightarrow> ''undefined'' | Some a \<Rightarrow> a)
       @ '', seu assistente jur'' @ [CHR 0xED] @ ''dico inteligente. Como posso ajud''
       @ [CHR 0xE1] @ ''-lo hoje?''"
  by (simp add: clearChat_def greeting_def template_string_def)

section \<open>Properties of the start-up\<close>

text \<open>
  C9. When the fetch of the configuration is rejected or its response is not \<open>ok\<close>,
  \<open>appConfig\<close> stays \<open>null\<close>, \<open>App\<close> renders the loading screen (also once the
  set-up status is read and the branding is loaded), and \<open>initializeApi\<close> is not
  called: the client stays as it was.
\<close>

theorem failed_load_keeps_loading_screen:
  assumes "load_failed fetched" and "appConfig s = None"
  shows "appConfig (loadAppConfig fetched s) = None
    \<and> render b brandingLoading (loadAppConfig fetched s) = LoadingScreen
    \<and> render b brandingLoading (checkSetupStatus v (loadAppConfig fetched s)) = LoadingScreen
    \<and> apiClient (loadAppConfig fetched s) = apiClient s
    \<and> initializeApi_calls (loadAppConfig fetched s) = initializeApi_calls s"
  using assms
  by (cases fetched) (simp_all add: load_failed_def loadAppConfig_def render_def checkSetupStatus_def)

text \<open>
  Witness for C9: a refused connection and a 404 response, from the initial state.
\<close>

theorem failed_load_keeps_loading_screen_witness:
  "load_failed (Rejected (TypeError ''Failed to fetch'') :: AppConfig option response settled)
   \<and> load_failed (Fulfilled config_not_found)
   \<and> appConfig initial_App = None
   \<and> render defaultBranding False
       (checkSetupStatus (Some ''true'') (loadAppConfig (Rejected (TypeError ''Failed to fetch'')) initial_App))
     = LoadingScreen
   \<and> render defaultBranding False
       (checkSetupStatus (Some ''true'') (loadAppConfig (Fulfilled config_not_found) initial_App))
     = LoadingScreen
   \<and> initializeApi_calls (loadAppConfig (Fulfilled config_not_found) initial_App) = []"
proof -
  have r: "load_failed (Rejected (TypeError ''Failed to fetch'') :: AppConfig option response settled)"
    by (simp add: load_failed_def)
  have f: "load_failed (Fulfilled config_not_found)"
    by (simp add: load_failed_def config_not_found_def)
  have a: "appConfig initial_App = None" by (simp add: initial_App_def)
  from failed_load_keeps_loading_screen [OF r a, of defaultBranding False "Some ''true''"]
    failed_load_keeps_loading_screen [OF f a, of defaultBranding False "Some ''true''"] r f a
  show ?thesis by (simp add: initial_App_def)
qed

section \<open>Properties of the input sanitisation\<close>

lemma set_remove_javascript: "set (remove_javascript s) \<subseteq> set s"
proof (induction s rule: remove_javascript.induct)
  case 1
  show ?case by simp
next
  case (2 c cs)
  show ?case
  proof (cases "matches_ignore_case ''javascript:'' (c # cs)")
    case True
    with 2 have "set (remove_javascript (c # cs)) \<subseteq> set (drop 10 cs)" by simp
    also have "\<dots> \<subseteq> set (c # cs)" using set_drop_subset [of 10 cs] by auto
    finally show ?thesis .
  next
    case False
    with 2 show ?thesis by auto
  qed
qed

lemma set_remove_on_handlers: "set (remove_on_handlers s) \<subseteq> set s"
proof (induction s rule: remove_on_handlers.induct)
  case 1
  show ?case by simp
next
  case (2 c cs)
  show ?case
  proof (cases "on_handler_match (c # cs)")
    case None
    with 2 show ?thesis by auto
  next
    case (Some n)
    with 2 have "set (remove_on_handlers (c # cs)) \<subseteq> set (drop (n - 1) cs)" by simp
    also have "\<dots> \<subseteq> set (c # cs)" using set_drop_subset [of "n - 1" cs] by auto
    finally show ?thesis .
  qed
qed

lemma set_trim: "set (trim s) \<subseteq> set s"
proof -
  have "set (trim s) \<subseteq> set (dropWhile is_whitespace s)"
    unfolding trim_def using set_dropWhileD by fastforce
  also have "\<dots> \<subseteq> set s" using set_dropWhileD by fastforce
  finally show ?thesis .
qed

lemma dropWhile_no_leading: "\<not> starts_with_whitespace (dropWhile is_whitespace xs)"
  by (induction xs) (auto simp: starts_with_whitespace_def)

lemma trim_no_trailing: "\<not> ends_with_whitespace (trim s)"
  by (simp add: ends_with_whitespace_def trim_def dropWhile_no_leading)

lemma strip_end_keeps_start:
  assumes "\<not> starts_with_whitespace u"
  shows "\<not> starts_with_whitespace (rev (dropWhile is_whitespace (rev u)))"
proof (cases "rev (dropWhile is_whitespace (rev u))")
  case Nil
  show ?thesis unfolding Nil by (simp add: starts_with_whitespace_def)
next
  case (Cons a as)
  have "u = rev (dropWhile is_whitespace (rev u)) @ rev (takeWhile is_whitespace (rev u))"
    by (metis rev_append rev_rev_ident takeWhile_dropWhile_id)
  with Cons have "u = a # as @ rev (takeWhile is_whitespace (rev u))" by simp
  then obtain rest where "u = a # rest" by blast
  with assms have "\<not> is_whitespace a" by (simp add: starts_with_whitespace_def)
  then show ?thesis unfolding Cons by (simp add: starts_with_whitespace_def)
qed

lemma trim_no_leading: "\<not> starts_with_whitespace (trim s)"
  unfolding trim_def by (rule strip_end_keeps_start) (rule dropWhile_no_leading)

text \<open>
  C10. For every input, the result of \<open>sanitizeInput\<close> holds neither \<open><\<close> nor \<open>>\<close>, and
  it neither starts nor ends with a white-space character.
\<close>

theorem sanitizeInput_clean:
  "CHR ''<'' \<notin> set (sanitizeInput input) \<and> CHR ''>'' \<notin> set (sanitizeInput input)
   \<and> \<not> starts_with_whitespace (sanitizeInput input)
   \<and> \<not> ends_with_whitespace (sanitizeInput input)"
proof -
  have "set (sanitizeInput input) \<subseteq> set (remove_angle_brackets input)"
    unfolding sanitizeInput_def
    using set_trim set_remove_on_handlers set_remove_javascript by (meson subset_trans)
  moreover have "CHR ''<'' \<notin> set (remove_angle_brackets input)"
    and "CHR ''>'' \<notin> set (remove_angle_brackets input)"
    by (simp_all add: remove_angle_brackets_def)
  ultimately have "CHR ''<'' \<notin> set (sanitizeInput input)"
    and "CHR ''>'' \<notin> set (sanitizeInput input)" by auto
  then show ?thesis
    by (simp add: sanitizeInput_def trim_no_leading trim_no_trailing)
qed

end
